theory Spec2Isabelle
  imports Main
begin

section \<open>Python values\<close>

text \<open>
  The profile dictionaries hold whatever the platform's JSON holds. The values the code
  can tell apart are modelled: \<open>None\<close>, booleans, integers, strings (lists of code points
  below 256) and containers (a list or a dict). Of a container the code only ever observes
  its length (truthiness) and its printed form, so that is what \<open>PContainer\<close> carries.
  Floating-point values are outside the model.
\<close>

datatype pyval = PNone | PBool bool | PInt int | PStr string | PContainer nat string

datatype pyexn =
    ValueError | TypeError | KeyError
  | LoginFailure | Forbidden | HTTPException | OtherException

type_synonym profile = "string \<rightharpoonup> pyval"

text \<open>Truthiness, as \<open>not x\<close>, \<open>x or y\<close> and \<open>if x\<close> test it.\<close>

fun truthy :: "pyval \<Rightarrow> bool" where
  "truthy PNone = False"
| "truthy (PBool b) = b"
| "truthy (PInt n) = (n \<noteq> 0)"
| "truthy (PStr s) = (s \<noteq> [])"
| "truthy (PContainer n r) = (n \<noteq> 0)"

text \<open>\<open>x or y\<close>\<close>

definition py_or :: "pyval \<Rightarrow> pyval \<Rightarrow> pyval" where
  "py_or x y = (if truthy x then x else y)"

text \<open>\<open>d.get(k)\<close>: the value, or \<open>None\<close> for an absent key.\<close>

definition dict_get :: "profile \<Rightarrow> string \<Rightarrow> pyval" where
  "dict_get d k = (case d k of None \<Rightarrow> PNone | Some v \<Rightarrow> v)"

text \<open>\<open>d[k]\<close>: the value, or \<open>KeyError\<close> for an absent key.\<close>

definition dict_item :: "profile \<Rightarrow> string \<Rightarrow> pyexn + pyval" where
  "dict_item d k = (case d k of None \<Rightarrow> Inl KeyError | Some v \<Rightarrow> Inr v)"

subsection \<open>Printing: \<open>str(x)\<close> and the format specification \<open>{x:,}\<close>\<close>

fun nat_digits :: "nat \<Rightarrow> string" where
  "nat_digits n =
     (if n < 10 then [char_of (48 + n)]
      else nat_digits (n div 10) @ [char_of (48 + n mod 10)])"

declare nat_digits.simps [simp del]

definition int_str :: "int \<Rightarrow> string" where
  "int_str i = (if i < 0 then CHR ''-'' # nat_digits (nat (- i)) else nat_digits (nat i))"

fun py_str :: "pyval \<Rightarrow> string" where
  "py_str PNone = ''None''"
| "py_str (PBool b) = (if b then ''True'' else ''False'')"
| "py_str (PInt i) = int_str i"
| "py_str (PStr s) = s"
| "py_str (PContainer n r) = r"

text \<open>Groups of three digits from the right, separated by commas.\<close>

fun group3 :: "string \<Rightarrow> string" where
  "group3 (a # b # c # d # rest) = a # b # c # CHR '','' # group3 (d # rest)"
| "group3 ds = ds"

definition int_commas :: "int \<Rightarrow> string" where
  "int_commas i =
     (let body = rev (group3 (rev (nat_digits (nat \<bar>i\<bar>))))
      in if i < 0 then CHR ''-'' # body else body)"

text \<open>
  \<open>f"{x:,}"\<close>: integers (and booleans, which are integers) print with thousands
  separators; a string raises \<open>ValueError\<close>, \<open>None\<close> and containers raise \<open>TypeError\<close>.
\<close>

fun format_commas :: "pyval \<Rightarrow> pyexn + string" where
  "format_commas (PInt i) = Inr (int_commas i)"
| "format_commas (PBool b) = Inr (int_commas (if b then 1 else 0))"
| "format_commas (PStr s) = Inl ValueError"
| "format_commas PNone = Inl TypeError"
| "format_commas (PContainer n r) = Inl TypeError"

subsection \<open>Parsing: \<open>int(x)\<close>\<close>

text \<open>
  \<open>int\<close> of a string strips white space, reads an optional sign and then decimal digits,
  where single underscores may separate digits; anything else is a \<open>ValueError\<close>, and so
  is a literal of more than 4300 digits (the interpreter's default limit).
\<close>

definition py_isspace :: "char \<Rightarrow> bool" where
  "py_isspace c = ((of_char c :: nat) \<in> {9, 10, 11, 12, 13, 32, 133, 160})"

definition py_isdigit :: "char \<Rightarrow> bool" where
  "py_isdigit c = (48 \<le> (of_char c :: nat) \<and> (of_char c :: nat) \<le> 57)"

definition digit_val :: "char \<Rightarrow> nat" where
  "digit_val c = of_char c - 48"

fun parse_digits :: "string \<Rightarrow> nat list option" where
  "parse_digits [] = None"
| "parse_digits [c] = (if py_isdigit c then Some [digit_val c] else None)"
| "parse_digits (c # d # ds) =
     (if \<not> py_isdigit c then None
      else if d = CHR ''_'' then map_option (Cons (digit_val c)) (parse_digits ds)
      else map_option (Cons (digit_val c)) (parse_digits (d # ds)))"

definition digits_value :: "nat list \<Rightarrow> nat" where
  "digits_value ds = foldl (\<lambda>a d. 10 * a + d) 0 ds"

definition int_max_str_digits :: nat where
  "int_max_str_digits = 4300"

definition strip :: "string \<Rightarrow> string" where
  "strip s = rev (dropWhile py_isspace (rev (dropWhile py_isspace s)))"

definition int_of_digits :: "int \<Rightarrow> string \<Rightarrow> pyexn + int" where
  "int_of_digits sign body =
     (case parse_digits body of
        None \<Rightarrow> Inl ValueError
      | Some ds \<Rightarrow>
          if length ds > int_max_str_digits then Inl ValueError
          else Inr (sign * int (digits_value ds)))"

definition int_of_str :: "string \<Rightarrow> pyexn + int" where
  "int_of_str s =
     (case strip s of
        [] \<Rightarrow> Inl ValueError
      | c # cs \<Rightarrow>
          if c = CHR ''+'' then int_of_digits 1 cs
          else if c = CHR ''-'' then int_of_digits (- 1) cs
          else int_of_digits 1 (c # cs))"

fun py_int :: "pyval \<Rightarrow> pyexn + int" where
  "py_int (PStr s) = int_of_str s"
| "py_int (PInt i) = Inr i"
| "py_int (PBool b) = Inr (if b then 1 else 0)"
| "py_int PNone = Inl TypeError"
| "py_int (PContainer n r) = Inl TypeError"

text \<open>\<open>x >= m\<close> for an integer \<open>m\<close>: only numbers are ordered against an integer.\<close>

fun py_ge :: "pyval \<Rightarrow> int \<Rightarrow> pyexn + bool" where
  "py_ge (PInt i) m = Inr (m \<le> i)"
| "py_ge (PBool b) m = Inr (m \<le> (if b then 1 else 0))"
| "py_ge PNone m = Inl TypeError"
| "py_ge (PStr s) m = Inl TypeError"
| "py_ge (PContainer n r) m = Inl TypeError"

section \<open>data\_processor: \<open>filter_profiles\<close>\<close>

text \<open>
  The threshold: \<open>int(min_followers_str)\<close>, where both \<open>ValueError\<close> and \<open>TypeError\<close>
  are caught; then a warning is printed and 0 is used. The result carries the lines
  printed.
\<close>

definition parse_min_followers :: "pyval \<Rightarrow> string list \<times> int" where
  "parse_min_followers min_followers_str =
     (case py_int min_followers_str of
        Inr m \<Rightarrow> ([], m)
      | Inl e \<Rightarrow>
          ([''Warning: Invalid MIN_FOLLOWERS value '' @ [CHR 0x27] @ py_str min_followers_str
              @ [CHR 0x27] @ ''. Using 0 as minimum.''], 0))"

text \<open>
  \<open>profile.get('follower_count', 0)\<close>, then the coercion of a string: \<open>int\<close> of it, or 0
  when that raises \<open>ValueError\<close>. A value that is not a string is left as it is.
\<close>

definition follower_count_of :: "profile \<Rightarrow> pyval" where
  "follower_count_of p =
     (let follower_count = (case p ''follower_count'' of None \<Rightarrow> PInt 0 | Some v \<Rightarrow> v)
      in case follower_count of
           PStr s \<Rightarrow> (case int_of_str s of Inr i \<Rightarrow> PInt i | Inl e \<Rightarrow> PInt 0)
         | v \<Rightarrow> v)"

text \<open>The loop over the profiles; the comparison may raise, which ends the call.\<close>

fun filter_loop :: "int \<Rightarrow> profile list \<Rightarrow> profile list \<Rightarrow> pyexn + profile list" where
  "filter_loop min_followers [] filtered_profiles = Inr filtered_profiles"
| "filter_loop min_followers (p # ps) filtered_profiles =
     (case py_ge (follower_count_of p) min_followers of
        Inl e \<Rightarrow> Inl e
      | Inr keep \<Rightarrow>
          filter_loop min_followers ps
            (if keep then filtered_profiles @ [p] else filtered_profiles))"

definition filter_profiles :: "profile list \<Rightarrow> pyval \<Rightarrow> string list \<times> (pyexn + profile list)" where
  "filter_profiles profiles min_followers_str =
     (let (warnings, min_followers) = parse_min_followers min_followers_str
      in (warnings, filter_loop min_followers profiles []))"

text \<open>
  The specification's reading of the two coercions, written from its words and not from
  the code above. The threshold: parse as an integer, 0 on a parse failure. The follower
  count of a record: 0 when absent; a string is parsed, 0 when it does not parse; any
  other malformed value degrades to 0.
\<close>

definition spec_threshold :: "pyval \<Rightarrow> int" where
  "spec_threshold t = (case py_int t of Inr m \<Rightarrow> m | Inl e \<Rightarrow> 0)"

definition spec_follower_count :: "profile \<Rightarrow> int" where
  "spec_follower_count p =
     (case p ''follower_count'' of
        None \<Rightarrow> 0
      | Some (PInt i) \<Rightarrow> i
      | Some (PBool b) \<Rightarrow> (if b then 1 else 0)
      | Some (PStr s) \<Rightarrow> (case int_of_str s of Inr i \<Rightarrow> i | Inl e \<Rightarrow> 0)
      | Some PNone \<Rightarrow> 0
      | Some (PContainer n r) \<Rightarrow> 0)"

text \<open>
  \<open>count_well_typed\<close> holds of a record whose \<open>follower_count\<close> is absent, an integer
  (or boolean) or a string, the values of the data model.
\<close>

definition count_well_typed :: "profile \<Rightarrow> bool" where
  "count_well_typed p =
     (case p ''follower_count'' of
        None \<Rightarrow> True
      | Some PNone \<Rightarrow> False
      | Some (PContainer n r) \<Rightarrow> False
      | Some v \<Rightarrow> True)"

section \<open>Keys of sets and dictionaries\<close>

text \<open>
  A set or a dict finds a key by hash and equality: \<open>True\<close> and \<open>1\<close> are the same key,
  and so are \<open>False\<close> and \<open>0\<close>; a list or a dict is unhashable and raises \<open>TypeError\<close>.
  \<open>py_key\<close> gives the representative of a value's equality class.
\<close>

fun py_key :: "pyval \<Rightarrow> pyexn + pyval" where
  "py_key (PBool b) = Inr (PInt (if b then 1 else 0))"
| "py_key (PContainer n r) = Inl TypeError"
| "py_key PNone = Inr PNone"
| "py_key (PInt i) = Inr (PInt i)"
| "py_key (PStr s) = Inr (PStr s)"

type_synonym environ = "string \<rightharpoonup> string"

section \<open>tiktok\_scraper: \<open>get_trending_profiles\<close>\<close>

text \<open>
  The platform client is the outside world of the scraper. Creating the session may
  raise. The trending feed is the sequence of things the iteration does: it yields a video,
  of which the code reads the author's dictionary, or it raises.
\<close>

datatype feed_item = Video "string \<rightharpoonup> pyval" | FeedRaises

record tiktok_api =
  create_sessions_raises :: "string list option \<Rightarrow> string \<Rightarrow> bool"
  trending_videos :: "int \<Rightarrow> feed_item list"

definition profile_id_of :: "(string \<rightharpoonup> pyval) \<Rightarrow> pyval" where
  "profile_id_of author = py_or (dict_get author ''id'') (dict_get author ''uniqueId'')"

definition profile_data_of :: "(string \<rightharpoonup> pyval) \<Rightarrow> pyval \<Rightarrow> profile" where
  "profile_data_of author profile_id =
     [''id'' \<mapsto> profile_id,
      ''username'' \<mapsto> dict_get author ''uniqueId'',
      ''nickname'' \<mapsto> dict_get author ''nickname'',
      ''bio'' \<mapsto> dict_get author ''signature'',
      ''follower_count'' \<mapsto> dict_get author ''followerCount'',
      ''heart_count'' \<mapsto> dict_get author ''heartCount'',
      ''video_count'' \<mapsto> dict_get author ''videoCount'',
      ''profile_url'' \<mapsto>
         PStr (''https://www.tiktok.com/@'' @ py_str (dict_get author ''uniqueId'')),
      ''avatar_url'' \<mapsto> dict_get author ''avatarLarger'']"

text \<open>
  The loop over the feed. \<open>unique_profiles\<close> is the dictionary in insertion order, as
  pairs of key and record. The first component of the result says whether an exception
  ended the loop (it is caught by the handler around the loop): the feed raising, or
  \<open>profile_id not in unique_profiles\<close> raising on an unhashable id.
\<close>

fun scrape_loop ::
  "int \<Rightarrow> feed_item list \<Rightarrow> (pyval \<times> profile) list \<Rightarrow> bool \<times> (pyval \<times> profile) list"
where
  "scrape_loop count [] unique_profiles = (False, unique_profiles)"
| "scrape_loop count (FeedRaises # rest) unique_profiles = (True, unique_profiles)"
| "scrape_loop count (Video author # rest) unique_profiles =
     (if \<not> truthy (profile_id_of author) then
        (if count \<le> int (length unique_profiles) then (False, unique_profiles)
         else scrape_loop count rest unique_profiles)
      else
        (case py_key (profile_id_of author) of
           Inl e \<Rightarrow> (True, unique_profiles)
         | Inr k \<Rightarrow>
             (if k \<in> fst ` set unique_profiles then
                (if count \<le> int (length unique_profiles) then (False, unique_profiles)
                 else scrape_loop count rest unique_profiles)
              else
                (if count \<le> int (length unique_profiles) + 1 then
                   (False, unique_profiles @ [(k, profile_data_of author (profile_id_of author))])
                 else
                   scrape_loop count rest
                     (unique_profiles @ [(k, profile_data_of author (profile_id_of author))])))))"

text \<open>
  The call: whether an exception was caught, and the list returned, which is
  \<open>list(unique_profiles.values())\<close> in either case.
\<close>

definition ms_tokens_arg :: "environ \<Rightarrow> string list option" where
  "ms_tokens_arg env =
     (case env ''TIKTOK_MS_TOKEN'' of
        None \<Rightarrow> None
      | Some ms_token \<Rightarrow> if ms_token = [] then None else Some [ms_token])"

definition browser_arg :: "environ \<Rightarrow> string" where
  "browser_arg env = (case env ''TIKTOK_BROWSER'' of None \<Rightarrow> ''chromium'' | Some b \<Rightarrow> b)"

definition get_trending_profiles :: "environ \<Rightarrow> tiktok_api \<Rightarrow> int \<Rightarrow> bool \<times> profile list" where
  "get_trending_profiles env api count =
     (if create_sessions_raises api (ms_tokens_arg env) (browser_arg env) then (True, [])
      else (let (caught, unique_profiles) = scrape_loop count (trending_videos api count) []
            in (caught, map snd unique_profiles)))"

text \<open>
  Two readings of the feed that the properties below are stated with: the record the loop
  builds from an author, and the first video of the feed whose author has a given key.
\<close>

definition profile_of_author :: "(string \<rightharpoonup> pyval) \<Rightarrow> profile" where
  "profile_of_author author = profile_data_of author (profile_id_of author)"

fun first_with_key :: "feed_item list \<Rightarrow> pyval \<Rightarrow> (string \<rightharpoonup> pyval) option" where
  "first_with_key [] k = None"
| "first_with_key (FeedRaises # rest) k = first_with_key rest k"
| "first_with_key (Video author # rest) k =
     (if truthy (profile_id_of author) \<and> py_key (profile_id_of author) = Inr k
      then Some author else first_with_key rest k)"

section \<open>discord\_poster: \<open>create_profile_embed\<close> and \<open>post_profile_to_discord\<close>\<close>

definition then_do :: "pyexn + 'a \<Rightarrow> ('a \<Rightarrow> pyexn + 'b) \<Rightarrow> pyexn + 'b" where
  "then_do r f = (case r of Inl e \<Rightarrow> Inl e | Inr v \<Rightarrow> f v)"

datatype colour = Red

text \<open>The embed, as the arguments the code hands to the chat library.\<close>

record embed =
  embed_title :: string
  embed_url :: pyval
  embed_description :: pyval
  embed_color :: colour
  embed_thumbnail :: pyval
  embed_fields :: "(string \<times> string \<times> bool) list"
  embed_footer :: string

definition create_profile_embed :: "profile \<Rightarrow> pyexn + embed" where
  "create_profile_embed profile_data =
     then_do (dict_item profile_data ''username'') (\<lambda>username.
     then_do (dict_item profile_data ''profile_url'') (\<lambda>profile_url.
     then_do (dict_item profile_data ''bio'') (\<lambda>bio.
     then_do (dict_item profile_data ''avatar_url'') (\<lambda>avatar_url.
     then_do (dict_item profile_data ''follower_count'') (\<lambda>follower_count.
     then_do (format_commas follower_count) (\<lambda>followers.
     then_do (dict_item profile_data ''heart_count'') (\<lambda>heart_count.
     then_do (format_commas heart_count) (\<lambda>likes.
     then_do (dict_item profile_data ''video_count'') (\<lambda>video_count.
     then_do (format_commas video_count) (\<lambda>videos.
     then_do (dict_item profile_data ''nickname'') (\<lambda>nickname.
       Inr \<lparr> embed_title = ''New Trending Profile: @'' @ py_str username,
             embed_url = profile_url,
             embed_description = (if truthy bio then bio else PStr ''No bio provided.''),
             embed_color = Red,
             embed_thumbnail = avatar_url,
             embed_fields = [(''Followers'', followers, True),
                             (''Total Likes'', likes, True),
                             (''Total Videos'', videos, True)],
             embed_footer = ''Nickname: '' @ py_str nickname \<rparr>)))))))))))"

text \<open>
  The chat library is the outside world of the poster. \<open>bot.start(token)\<close> raises, or
  runs until the bot is closed; the \<open>on_ready\<close> handler registered by the call may or may
  not have fired by then. Inside the handler the channel is looked up in the bot's cache,
  a thread is created and the message is sent; each of the two requests may raise.
\<close>

datatype start_outcome = StartRaises pyexn | ReadyFired | ClosedWithoutReady

record discord_api =
  bot_start :: "string \<Rightarrow> start_outcome"
  get_channel :: "int \<Rightarrow> bool"
  create_thread :: "int \<Rightarrow> string \<Rightarrow> pyexn option"
  thread_send :: "int \<Rightarrow> string \<Rightarrow> embed \<Rightarrow> pyexn option"

datatype discord_effect = ThreadCreated int string | MessageSent int string embed

text \<open>
  The handler: every exception raised in its body is caught there, so all it leaves
  behind is what it did on the server.
\<close>

definition on_ready :: "discord_api \<Rightarrow> profile \<Rightarrow> pyval \<Rightarrow> discord_effect list" where
  "on_ready api profile_data channel_id =
     (case py_int channel_id of
        Inl e \<Rightarrow> []
      | Inr cid \<Rightarrow>
          if \<not> get_channel api cid then []
          else
            (case then_do (create_profile_embed profile_data) (\<lambda>emb.
                  then_do (dict_item profile_data ''username'') (\<lambda>username.
                  then_do (dict_item profile_data ''follower_count'') (\<lambda>follower_count.
                  then_do (format_commas follower_count) (\<lambda>followers.
                    Inr (emb, ''@'' @ py_str username @ '' - '' @ followers @ '' Followers''))))) of
               Inl e \<Rightarrow> []
             | Inr (emb, thread_name) \<Rightarrow>
                 (case create_thread api cid thread_name of
                    Some e \<Rightarrow> []
                  | None \<Rightarrow>
                      (case thread_send api cid thread_name emb of
                         Some e \<Rightarrow> [ThreadCreated cid thread_name]
                       | None \<Rightarrow>
                           [ThreadCreated cid thread_name, MessageSent cid thread_name emb]))))"

text \<open>The call: the value returned, and what was done on the server.\<close>

definition post_profile_to_discord ::
  "environ \<Rightarrow> discord_api \<Rightarrow> profile \<Rightarrow> pyval \<Rightarrow> bool \<times> discord_effect list"
where
  "post_profile_to_discord env api profile_data channel_id =
     (case env ''DISCORD_BOT_TOKEN'' of
        None \<Rightarrow> (False, [])
      | Some token \<Rightarrow>
          if token = [] then (False, [])
          else
            (case bot_start api token of
               StartRaises e \<Rightarrow> (False, [])
             | ClosedWithoutReady \<Rightarrow> (True, [])
             | ReadyFired \<Rightarrow> (True, on_ready api profile_data channel_id)))"

section \<open>main: \<open>run_scraper_and_poster\<close>\<close>

text \<open>
  The orchestrator calls two collaborators. They are parameters here, each a function on
  a world that it may change and that decides what it returns or raises; the calls made
  are recorded as events, the publish loop recording its own from the empty list. Console output is not modelled, except for the count of the
  final summary line.
\<close>

datatype event =
    ScrapeCalled int
  | PublishCalled profile string "pyexn + bool"
  | Slept nat

record 'w loop_state =
  posted_profiles :: "pyval set"
  events :: "event list"
  world :: 'w

definition username_key :: "profile \<Rightarrow> pyexn + pyval" where
  "username_key p = then_do (dict_item p ''username'') py_key"

text \<open>
  The publish loop. \<open>profile['username']\<close> raises on a record without the key, and
  \<open>username in posted_profiles\<close> on an unhashable username; nothing in the loop catches
  an exception, so the first one ends it.
\<close>

fun publish_loop ::
  "('w \<Rightarrow> profile \<Rightarrow> string \<Rightarrow> (pyexn + bool) \<times> 'w) \<Rightarrow> string \<Rightarrow> profile list \<Rightarrow>
     'w loop_state \<Rightarrow> pyexn option \<times> 'w loop_state"
where
  "publish_loop publish channel_id [] st = (None, st)"
| "publish_loop publish channel_id (p # ps) st =
     (case username_key p of
        Inl e \<Rightarrow> (Some e, st)
      | Inr k \<Rightarrow>
          if k \<in> posted_profiles st then publish_loop publish channel_id ps st
          else
            (case publish (world st) p channel_id of
               (Inl e, w) \<Rightarrow>
                 (Some e, st\<lparr>events := events st @ [PublishCalled p channel_id (Inl e)],
                             world := w\<rparr>)
             | (Inr success, w) \<Rightarrow>
                 publish_loop publish channel_id ps
                   (st\<lparr>posted_profiles :=
                          (if success then insert k (posted_profiles st)
                           else posted_profiles st),
                        events := events st @ [PublishCalled p channel_id (Inr success), Slept 5],
                        world := w\<rparr>)))"

text \<open>
  Two readings of the events: whether an event is a publish call that returned true, and
  whether a sequence of events never calls the publisher for a username that is in the
  success set at that time, the set growing by the successful calls.
\<close>

fun is_success :: "event \<Rightarrow> bool" where
  "is_success (PublishCalled p c (Inr b)) = b"
| "is_success (PublishCalled p c (Inl e)) = False"
| "is_success (ScrapeCalled n) = False"
| "is_success (Slept n) = False"


text \<open>
  A third reading: the usernames of the publish calls that returned true.
\<close>

fun success_keys :: "event list \<Rightarrow> pyval set" where
  "success_keys [] = {}"
| "success_keys (PublishCalled p c r # es) =
     (case username_key p of
        Inl e \<Rightarrow> success_keys es
      | Inr k \<Rightarrow> if r = Inr True then insert k (success_keys es) else success_keys es)"
| "success_keys (ScrapeCalled n # es) = success_keys es"
| "success_keys (Slept n # es) = success_keys es"

record 'w run_result =
  raised :: "pyexn option"
  reported :: "nat option"
  calls :: "event list"
  final_world :: 'w

definition run_with ::
  "('w \<Rightarrow> int \<Rightarrow> (pyexn + profile list) \<times> 'w) \<Rightarrow>
   ('w \<Rightarrow> profile \<Rightarrow> string \<Rightarrow> (pyexn + bool) \<times> 'w) \<Rightarrow> environ \<Rightarrow> 'w \<Rightarrow> 'w run_result"
where
  "run_with scrape publish env w =
     (let discord_channel_id = env ''DISCORD_CHANNEL_ID'';
          min_followers_str = (case env ''MIN_FOLLOWERS'' of None \<Rightarrow> ''100000'' | Some s \<Rightarrow> s)
      in
        if env ''DISCORD_BOT_TOKEN'' = None \<or> env ''DISCORD_BOT_TOKEN'' = Some [] then
          \<lparr>raised = None, reported = None, calls = [], final_world = w\<rparr>
        else
          (case discord_channel_id of
             None \<Rightarrow> \<lparr>raised = None, reported = None, calls = [], final_world = w\<rparr>
           | Some channel_id \<Rightarrow>
               if channel_id = [] then
                 \<lparr>raised = None, reported = None, calls = [], final_world = w\<rparr>
               else
                 (case scrape w 50 of
                    (Inl e, w1) \<Rightarrow>
                      \<lparr>raised = Some e, reported = None, calls = [ScrapeCalled 50],
                       final_world = w1\<rparr>
                  | (Inr raw_profiles, w1) \<Rightarrow>
                      (case snd (filter_profiles raw_profiles (PStr min_followers_str)) of
                         Inl e \<Rightarrow>
                           \<lparr>raised = Some e, reported = None, calls = [ScrapeCalled 50],
                            final_world = w1\<rparr>
                       | Inr filtered_profiles \<Rightarrow>
                           if filtered_profiles = [] then
                             \<lparr>raised = None, reported = None, calls = [ScrapeCalled 50],
                              final_world = w1\<rparr>
                           else
                             (case publish_loop publish channel_id filtered_profiles
                                     \<lparr>posted_profiles = {}, events = [], world = w1\<rparr> of
                                (Some e, st) \<Rightarrow>
                                  \<lparr>raised = Some e, reported = None,
                                   calls = ScrapeCalled 50 # events st,
                                   final_world = world st\<rparr>
                              | (None, st) \<Rightarrow>
                                  \<lparr>raised = None,
                                   reported = Some (card (posted_profiles st)),
                                   calls = ScrapeCalled 50 # events st,
                                   final_world = world st\<rparr>)))))"

text \<open>
  The program itself: the collaborators are the two functions of this repository. The
  world is the number of publish calls made so far, and \<open>discord\<close> gives the behaviour of
  the chat platform during each of them.
\<close>

definition run_scraper_and_poster ::
  "environ \<Rightarrow> tiktok_api \<Rightarrow> (nat \<Rightarrow> discord_api) \<Rightarrow> nat run_result"
where
  "run_scraper_and_poster env tiktok discord =
     run_with
       (\<lambda>w count. (Inr (snd (get_trending_profiles env tiktok count)), w))
       (\<lambda>w p channel_id.
          (Inr (fst (post_profile_to_discord env (discord w) p (PStr channel_id))), Suc w))
       env 0"

section \<open>Properties of \<open>filter_profiles\<close>\<close>

lemmas int_eval = int_of_str_def strip_def py_isspace_def int_of_digits_def py_isdigit_def
      digit_val_def digits_value_def int_max_str_digits_def

lemma py_ge_well_typed:
  "count_well_typed p \<Longrightarrow>
     py_ge (follower_count_of p) m = Inr (m \<le> spec_follower_count p)"
  by (auto simp: count_well_typed_def follower_count_of_def spec_follower_count_def
      split: option.splits pyval.splits sum.splits)

lemma py_ge_ill_typed:
  "\<not> count_well_typed p \<Longrightarrow> py_ge (follower_count_of p) m = Inl TypeError"
  by (auto simp: count_well_typed_def follower_count_of_def
      split: option.splits pyval.splits sum.splits)

lemma filter_loop_well_typed:
  "list_all count_well_typed ps \<Longrightarrow>
     filter_loop m ps acc = Inr (acc @ filter (\<lambda>p. m \<le> spec_follower_count p) ps)"
  by (induction ps arbitrary: acc) (simp_all add: py_ge_well_typed)

lemma filter_loop_ill_typed:
  "\<not> list_all count_well_typed ps \<Longrightarrow> filter_loop m ps acc = Inl TypeError"
proof (induction ps arbitrary: acc)
  case Nil
  then show ?case by simp
next
  case (Cons p ps)
  show ?case
  proof (cases "count_well_typed p")
    case True
    with Cons.prems have "\<not> list_all count_well_typed ps" by simp
    with Cons.IH True show ?thesis by (simp add: py_ge_well_typed)
  next
    case False
    then show ?thesis by (simp add: py_ge_ill_typed)
  qed
qed

lemma threshold_parsed: "snd (parse_min_followers t) = spec_threshold t"
  by (simp add: parse_min_followers_def spec_threshold_def split: sum.splits)

lemma snd_filter_profiles:
  "snd (filter_profiles ps t) = filter_loop (spec_threshold t) ps []"
  by (simp add: filter_profiles_def threshold_parsed [symmetric] split: prod.splits)

lemma fst_filter_profiles:
  "fst (filter_profiles ps t) = fst (parse_min_followers t)"
  by (simp add: filter_profiles_def split: prod.splits)

lemma int_of_str_zero: "int_of_str ''0'' = Inr 0"
  by (simp add: int_eval)

text \<open>
  What \<open>filter_profiles\<close> returns, for every list and every threshold: on records of the
  data model, the records the specification asks for, in the order of the input (the
  boundary included, an absent count being 0); \<open>TypeError\<close> as soon as one record has a
  \<open>follower_count\<close> that is \<open>None\<close> or a container.
\<close>

lemma filter_profiles_characterised:
  "snd (filter_profiles profiles threshold) =
     (if list_all count_well_typed profiles
      then Inr (filter (\<lambda>p. spec_threshold threshold \<le> spec_follower_count p) profiles)
      else Inl TypeError)"
  by (simp add: snd_filter_profiles filter_loop_well_typed filter_loop_ill_typed)

text \<open>
  C1 (the code at a failing input): the claim holds of the first list, where the record
  below the threshold is dropped and the string count is coerced and kept. It fails as soon
  as a record has the \<open>follower_count\<close> \<open>None\<close>, which is what the scraper stores for an
  author without \<open>followerCount\<close>: the call raises \<open>TypeError\<close> and returns no records
  at all.
\<close>

theorem filter_profiles_raises_on_scraped_record:
  "snd (filter_profiles
        [[''follower_count'' \<mapsto> PInt 50000], [''follower_count'' \<mapsto> PStr ''150000'']]
        (PStr ''100000'')) =
      Inr [[''follower_count'' \<mapsto> PStr ''150000'']]
   \<and> snd (filter_profiles
        [[''follower_count'' \<mapsto> PInt 50000], [''follower_count'' \<mapsto> PStr ''150000''],
         [''follower_count'' \<mapsto> PNone]]
        (PStr ''100000'')) = Inl TypeError
   \<and> snd (filter_profiles
        [profile_of_author [''id'' \<mapsto> PStr ''1'', ''uniqueId'' \<mapsto> PStr ''alice'']]
        (PStr ''100000'')) = Inl TypeError"
  by (simp add: filter_profiles_def parse_min_followers_def follower_count_of_def int_eval
      profile_of_author_def profile_data_of_def dict_get_def)

text \<open>
  C7 (the code at the failing input): a record whose \<open>follower_count\<close> is present with
  the value \<open>None\<close> is not coerced; the comparison with the threshold raises
  \<open>TypeError\<close> and the call does not complete.
\<close>

theorem filter_profiles_none_raises:
  "snd (filter_profiles [[''follower_count'' \<mapsto> PNone]] (PStr ''0'')) = Inl TypeError"
  by (simp add: filter_profiles_def parse_min_followers_def follower_count_of_def int_eval)

text \<open>
  C8 (as amended): for every list, a threshold that \<open>int\<close> cannot parse (an empty or
  non-numeric string, or \<open>None\<close>) gives the same result as the threshold \<open>"0"\<close>; the only
  difference is the one warning line printed. On records of the data model that result is
  the records whose coerced follower count is at least 0, in the order of the input: the
  whole input when no count is negative.
\<close>

theorem filter_profiles_bad_threshold:
  assumes "py_int threshold = Inl e"
  shows "snd (filter_profiles profiles threshold) = snd (filter_profiles profiles (PStr ''0''))
       \<and> fst (filter_profiles profiles (PStr ''0'')) = []
       \<and> length (fst (filter_profiles profiles threshold)) = 1
       \<and> (list_all count_well_typed profiles \<longrightarrow>
            snd (filter_profiles profiles threshold) =
              Inr (filter (\<lambda>p. 0 \<le> spec_follower_count p) profiles))
       \<and> (list_all count_well_typed profiles
            \<and> list_all (\<lambda>p. 0 \<le> spec_follower_count p) profiles \<longrightarrow>
            snd (filter_profiles profiles threshold) = Inr profiles)"
proof -
  have thr: "spec_threshold threshold = 0"
    using assms by (simp add: spec_threshold_def)
  have zero: "spec_threshold (PStr ''0'') = 0"
    by (simp add: spec_threshold_def int_of_str_zero)
  have same: "snd (filter_profiles profiles threshold) = snd (filter_profiles profiles (PStr ''0''))"
    by (simp add: snd_filter_profiles thr zero)
  have quiet: "fst (filter_profiles profiles (PStr ''0'')) = []"
    by (simp add: fst_filter_profiles parse_min_followers_def int_of_str_zero)
  have warn: "length (fst (filter_profiles profiles threshold)) = 1"
    using assms by (simp add: fst_filter_profiles parse_min_followers_def)
  have kept: "snd (filter_profiles profiles threshold) =
              Inr (filter (\<lambda>p. 0 \<le> spec_follower_count p) profiles)"
    if "list_all count_well_typed profiles"
    using that by (simp add: snd_filter_profiles thr filter_loop_well_typed)
  have all: "snd (filter_profiles profiles threshold) = Inr profiles"
    if "list_all count_well_typed profiles \<and> list_all (\<lambda>p. 0 \<le> spec_follower_count p) profiles"
  proof -
    from that have "filter (\<lambda>p. 0 \<le> spec_follower_count p) profiles = profiles"
      by (simp add: list_all_iff filter_id_conv)
    with kept that show ?thesis by simp
  qed
  from same quiet warn kept all show ?thesis by blast
qed

theorem filter_profiles_bad_threshold_witness:
  "py_int (PStr ''not-a-number'') = Inl ValueError
   \<and> py_int (PStr []) = Inl ValueError
   \<and> py_int PNone = Inl TypeError
   \<and> list_all count_well_typed
        [[''follower_count'' \<mapsto> PInt 5], Map.empty, [''follower_count'' \<mapsto> PInt (- 1)],
         [''follower_count'' \<mapsto> PStr ''7'']]
   \<and> snd (filter_profiles
        [[''follower_count'' \<mapsto> PInt 5], Map.empty, [''follower_count'' \<mapsto> PInt (- 1)],
         [''follower_count'' \<mapsto> PStr ''7'']]
        (PStr ''not-a-number'')) =
      Inr [[''follower_count'' \<mapsto> PInt 5], Map.empty, [''follower_count'' \<mapsto> PStr ''7'']]
   \<and> snd (filter_profiles
        [[''follower_count'' \<mapsto> PInt 5], Map.empty, [''follower_count'' \<mapsto> PInt (- 1)],
         [''follower_count'' \<mapsto> PStr ''7'']]
        (PStr ''0'')) =
      Inr [[''follower_count'' \<mapsto> PInt 5], Map.empty, [''follower_count'' \<mapsto> PStr ''7'']]"
proof -
  let ?ps = "[[''follower_count'' \<mapsto> PInt 5], Map.empty, [''follower_count'' \<mapsto> PInt (- 1)],
         [''follower_count'' \<mapsto> PStr ''7'']] :: profile list"
  have h: "py_int (PStr ''not-a-number'') = Inl ValueError"
    by (simp add: int_eval)
  have e: "py_int (PStr []) = Inl ValueError"
    by (simp add: int_eval)
  have wt: "list_all count_well_typed ?ps"
    by (simp add: count_well_typed_def)
  have f: "filter (\<lambda>p. 0 \<le> spec_follower_count p) ?ps =
      [[''follower_count'' \<mapsto> PInt 5], Map.empty, [''follower_count'' \<mapsto> PStr ''7'']]"
    by (simp add: spec_follower_count_def int_eval)
  from filter_profiles_bad_threshold [OF h, of ?ps] wt
  have r: "snd (filter_profiles ?ps (PStr ''not-a-number'')) =
             Inr (filter (\<lambda>p. 0 \<le> spec_follower_count p) ?ps)"
    and z: "snd (filter_profiles ?ps (PStr ''not-a-number'')) = snd (filter_profiles ?ps (PStr ''0''))"
    by blast+
  from r f have r': "snd (filter_profiles ?ps (PStr ''not-a-number'')) =
      Inr [[''follower_count'' \<mapsto> PInt 5], Map.empty, [''follower_count'' \<mapsto> PStr ''7'']]"
    by (simp only:)
  from z r' have z': "snd (filter_profiles ?ps (PStr ''0'')) =
      Inr [[''follower_count'' \<mapsto> PInt 5], Map.empty, [''follower_count'' \<mapsto> PStr ''7'']]"
    by (simp only:)
  from h e wt r' z' show ?thesis by (intro conjI) simp_all
qed

text \<open>
  C8 as stated fails: with an unparseable threshold a record with a negative follower
  count is dropped, so not all profiles are returned.
\<close>

theorem filter_profiles_bad_threshold_counterexample:
  "snd (filter_profiles [[''follower_count'' \<mapsto> PInt (- 1)]] (PStr ''not-a-number'')) = Inr []
   \<and> snd (filter_profiles [[''follower_count'' \<mapsto> PInt (- 1)]] (PStr ''not-a-number''))
       \<noteq> Inr [[''follower_count'' \<mapsto> PInt (- 1)]]"
  by (simp add: filter_profiles_def parse_min_followers_def follower_count_of_def int_eval)

section \<open>Properties of \<open>get_trending_profiles\<close>\<close>

lemma first_with_key_Some:
  "first_with_key feed k = Some a \<Longrightarrow>
     Video a \<in> set feed \<and> truthy (profile_id_of a) \<and> py_key (profile_id_of a) = Inr k"
  by (induction feed k rule: first_with_key.induct) (auto split: if_splits)

lemma scrape_loop_entries:
  "(k, r) \<in> set (snd (scrape_loop count feed acc)) \<Longrightarrow>
     (k, r) \<in> set acc \<or>
     (k \<notin> fst ` set acc \<and> map_option profile_of_author (first_with_key feed k) = Some r)"
proof (induction count feed acc rule: scrape_loop.induct)
  case (1 count unique_profiles)
  then show ?case by simp
next
  case (2 count rest unique_profiles)
  then show ?case by simp
next
  case (3 count author rest unique_profiles)
  then show ?case
    by (auto simp: profile_of_author_def split: if_splits sum.splits)
qed

lemma scrape_loop_distinct:
  "distinct (map fst acc) \<Longrightarrow> distinct (map fst (snd (scrape_loop count feed acc)))"
  by (induction count feed acc rule: scrape_loop.induct) (auto split: sum.splits)

lemma scrape_loop_length:
  "int (length (snd (scrape_loop count feed acc))) \<le> max (int (length acc) + 1) count"
  by (induction count feed acc rule: scrape_loop.induct) (auto split: sum.splits)

lemma scrape_loop_raises:
  "snd (scrape_loop count (pre @ FeedRaises # post) acc) = snd (scrape_loop count pre acc)"
  by (induction count pre acc rule: scrape_loop.induct) (auto split: sum.splits)

lemma profile_id_stored: "dict_get (profile_data_of a v) ''id'' = v"
  by (simp add: profile_data_of_def dict_get_def)


lemma keys_match:
  "(k, r) \<in> set (snd (scrape_loop count feed [])) \<Longrightarrow> py_key (dict_get r ''id'') = Inr k"
  using scrape_loop_entries [of k r count feed "[]"]
  by (auto simp: profile_of_author_def profile_id_stored dest: first_with_key_Some)

lemma snd_get_trending_profiles:
  "snd (get_trending_profiles env api count) =
     (if create_sessions_raises api (ms_tokens_arg env) (browser_arg env) then []
      else map snd (snd (scrape_loop count (trending_videos api count) [])))"
  by (simp add: get_trending_profiles_def split: prod.splits)

lemma get_trending_profiles_entries:
  assumes "r \<in> set (snd (get_trending_profiles env api count))"
  shows "\<exists>k. (k, r) \<in> set (snd (scrape_loop count (trending_videos api count) []))"
  using assms by (auto simp: snd_get_trending_profiles split: if_splits)

lemma distinct_map_via:
  fixes g :: "'b \<Rightarrow> pyexn + 'c"
  assumes "distinct (map h xs)" and "\<forall>x \<in> set xs. g (f x) = Inr (h x)"
  shows "distinct (map f xs)"
proof -
  from assms(1) have d: "distinct xs" and i: "inj_on h (set xs)"
    by (simp_all add: distinct_map)
  have "inj_on f (set xs)"
  proof (rule inj_onI)
    fix x y assume xy: "x \<in> set xs" "y \<in> set xs" "f x = f y"
    from assms(2) xy(1) have gx: "g (f x) = Inr (h x)" by blast
    from assms(2) xy(2) have gy: "g (f y) = Inr (h y)" by blast
    from gx gy xy(3) have "h x = h y" by simp
    with i xy show "x = y" by (simp add: inj_on_def)
  qed
  with d show ?thesis by (simp add: distinct_map)
qed

lemma distinct_ids_loop:
  "distinct (map (\<lambda>r. dict_get r ''id'') (map snd (snd (scrape_loop count feed []))))"
proof -
  let ?up = "snd (scrape_loop count feed [])"
  have d: "distinct (map fst ?up)"
    using scrape_loop_distinct [of "[]" count feed] by simp
  have m: "\<forall>e \<in> set ?up. py_key (dict_get (snd e) ''id'') = Inr (fst e)"
    using keys_match [of _ _ count feed] by auto
  have "distinct (map (\<lambda>e. dict_get (snd e) ''id'') ?up)"
    using d m by (rule distinct_map_via [where g = py_key and h = fst])
  then show ?thesis by (simp add: comp_def)
qed

text \<open>
  C9 (as amended): for every feed and every \<open>count\<close>, the records returned have pairwise
  distinct ids; each of them is the record built from the first video of the feed with
  that id; and there are at most \<open>count\<close> of them when \<open>count\<close> is at least 1 (the loop
  tests the bound after it has handled a video, so one record can be returned for a
  smaller \<open>count\<close>).
\<close>

theorem get_trending_profiles_unique:
  "distinct (map (\<lambda>r. dict_get r ''id'') (snd (get_trending_profiles env api count)))
   \<and> (\<forall>r \<in> set (snd (get_trending_profiles env api count)).
        \<exists>k. py_key (dict_get r ''id'') = Inr k
           \<and> map_option profile_of_author (first_with_key (trending_videos api count) k) = Some r)
   \<and> int (length (snd (get_trending_profiles env api count))) \<le> max 1 count"
proof -
  have a: "distinct (map (\<lambda>r. dict_get r ''id'') (snd (get_trending_profiles env api count)))"
    using distinct_ids_loop by (simp add: snd_get_trending_profiles)
  have b: "\<exists>k. py_key (dict_get r ''id'') = Inr k
           \<and> map_option profile_of_author (first_with_key (trending_videos api count) k) = Some r"
    if "r \<in> set (snd (get_trending_profiles env api count))" for r
  proof -
    from get_trending_profiles_entries [OF that] obtain k
      where k: "(k, r) \<in> set (snd (scrape_loop count (trending_videos api count) []))" ..
    from scrape_loop_entries [OF k] keys_match [OF k] show ?thesis by auto
  qed
  have c: "int (length (snd (get_trending_profiles env api count))) \<le> max 1 count"
    using scrape_loop_length [of count "trending_videos api count" "[]"]
    by (simp add: snd_get_trending_profiles)
  from a b c show ?thesis by blast
qed

theorem get_trending_profiles_unique_witness:
  "length (snd (get_trending_profiles Map.empty
      \<lparr>create_sessions_raises = (\<lambda>t b. False),
       trending_videos = (\<lambda>n. [Video [''id'' \<mapsto> PStr ''1'', ''uniqueId'' \<mapsto> PStr ''alice''],
                               Video [''id'' \<mapsto> PStr ''1'', ''uniqueId'' \<mapsto> PStr ''alice2''],
                               Video [''uniqueId'' \<mapsto> PStr ''bob''],
                               Video [''id'' \<mapsto> PStr ''3'']])\<rparr> 2)) = 2
   \<and> distinct (map (\<lambda>r. dict_get r ''id'') (snd (get_trending_profiles Map.empty
      \<lparr>create_sessions_raises = (\<lambda>t b. False),
       trending_videos = (\<lambda>n. [Video [''id'' \<mapsto> PStr ''1'', ''uniqueId'' \<mapsto> PStr ''alice''],
                               Video [''id'' \<mapsto> PStr ''1'', ''uniqueId'' \<mapsto> PStr ''alice2''],
                               Video [''uniqueId'' \<mapsto> PStr ''bob''],
                               Video [''id'' \<mapsto> PStr ''3'']])\<rparr> 2)))"
proof -
  have "length (snd (get_trending_profiles Map.empty
      \<lparr>create_sessions_raises = (\<lambda>t b. False),
       trending_videos = (\<lambda>n. [Video [''id'' \<mapsto> PStr ''1'', ''uniqueId'' \<mapsto> PStr ''alice''],
                               Video [''id'' \<mapsto> PStr ''1'', ''uniqueId'' \<mapsto> PStr ''alice2''],
                               Video [''uniqueId'' \<mapsto> PStr ''bob''],
                               Video [''id'' \<mapsto> PStr ''3'']])\<rparr> 2)) = 2"
    by (simp add: snd_get_trending_profiles profile_id_of_def py_or_def dict_get_def)
  with get_trending_profiles_unique [of Map.empty
      "\<lparr>create_sessions_raises = (\<lambda>t b. False),
       trending_videos = (\<lambda>n. [Video [''id'' \<mapsto> PStr ''1'', ''uniqueId'' \<mapsto> PStr ''alice''],
                               Video [''id'' \<mapsto> PStr ''1'', ''uniqueId'' \<mapsto> PStr ''alice2''],
                               Video [''uniqueId'' \<mapsto> PStr ''bob''],
                               Video [''id'' \<mapsto> PStr ''3'']])\<rparr>" 2]
  show ?thesis by blast
qed

text \<open>
  C9 as stated fails for \<open>count = 0\<close>: the first video is handled before the bound is
  tested, so one record is returned.
\<close>

theorem get_trending_profiles_count_counterexample:
  "\<not> int (length (snd (get_trending_profiles Map.empty
      \<lparr>create_sessions_raises = (\<lambda>t b. False),
       trending_videos = (\<lambda>n. [Video [''id'' \<mapsto> PStr ''1'']])\<rparr> 0))) \<le> 0"
  by (simp add: snd_get_trending_profiles profile_id_of_def py_or_def dict_get_def)

text \<open>
  C10: every record returned has a truthy id, and is built from a video whose author has
  a truthy \<open>id\<close> or a truthy \<open>uniqueId\<close>; a video with neither contributes no record.
\<close>

theorem get_trending_profiles_truthy_id:
  "\<forall>r \<in> set (snd (get_trending_profiles env api count)).
      truthy (dict_get r ''id'')
    \<and> (\<exists>author. Video author \<in> set (trending_videos api count)
          \<and> (truthy (dict_get author ''id'') \<or> truthy (dict_get author ''uniqueId''))
          \<and> r = profile_of_author author)"
proof
  fix r assume "r \<in> set (snd (get_trending_profiles env api count))"
  from get_trending_profiles_entries [OF this] obtain k
    where k: "(k, r) \<in> set (snd (scrape_loop count (trending_videos api count) []))" ..
  from scrape_loop_entries [OF k] obtain a
    where a: "first_with_key (trending_videos api count) k = Some a" "r = profile_of_author a"
    by auto
  from first_with_key_Some [OF a(1)]
  have v: "Video a \<in> set (trending_videos api count)" and t: "truthy (profile_id_of a)"
    by simp_all
  from t have "truthy (dict_get a ''id'') \<or> truthy (dict_get a ''uniqueId'')"
    by (auto simp: profile_id_of_def py_or_def split: if_splits)
  moreover have "truthy (dict_get r ''id'')"
    using t a(2) by (simp add: profile_of_author_def profile_id_stored)
  ultimately show "truthy (dict_get r ''id'')
    \<and> (\<exists>author. Video author \<in> set (trending_videos api count)
          \<and> (truthy (dict_get author ''id'') \<or> truthy (dict_get author ''uniqueId''))
          \<and> r = profile_of_author author)"
    using v a(2) by blast
qed

theorem get_trending_profiles_truthy_id_witness:
  "length (snd (get_trending_profiles Map.empty
      \<lparr>create_sessions_raises = (\<lambda>t b. False),
       trending_videos = (\<lambda>n. [Video [''nickname'' \<mapsto> PStr ''nobody'', ''id'' \<mapsto> PStr []],
                               Video [''uniqueId'' \<mapsto> PStr ''bob'']])\<rparr> 5)) = 1
   \<and> list_all (\<lambda>r. truthy (dict_get r ''id'')) (snd (get_trending_profiles Map.empty
      \<lparr>create_sessions_raises = (\<lambda>t b. False),
       trending_videos = (\<lambda>n. [Video [''nickname'' \<mapsto> PStr ''nobody'', ''id'' \<mapsto> PStr []],
                               Video [''uniqueId'' \<mapsto> PStr ''bob'']])\<rparr> 5))"
proof -
  have "length (snd (get_trending_profiles Map.empty
      \<lparr>create_sessions_raises = (\<lambda>t b. False),
       trending_videos = (\<lambda>n. [Video [''nickname'' \<mapsto> PStr ''nobody'', ''id'' \<mapsto> PStr []],
                               Video [''uniqueId'' \<mapsto> PStr ''bob'']])\<rparr> 5)) = 1"
    by (simp add: snd_get_trending_profiles profile_id_of_def py_or_def dict_get_def)
  with get_trending_profiles_truthy_id [of Map.empty
      "\<lparr>create_sessions_raises = (\<lambda>t b. False),
       trending_videos = (\<lambda>n. [Video [''nickname'' \<mapsto> PStr ''nobody'', ''id'' \<mapsto> PStr []],
                               Video [''uniqueId'' \<mapsto> PStr ''bob'']])\<rparr>" 5]
  show ?thesis unfolding list_all_iff by blast
qed

section \<open>Scraping errors\<close>

lemma filter_loop_empty: "snd (filter_profiles [] t) = Inr []"
  by (simp add: snd_filter_profiles)

text \<open>
  C6 (as amended): an exception raised during scraping is caught inside
  \<open>get_trending_profiles\<close> and the call returns what it had collected before: the empty
  list when creating the session raises, and then the orchestrator returns normally, having
  reported nothing and called the publisher not once; the records of the videos before the
  failure when the feed raises.
\<close>

theorem scrape_exception_caught:
  "(create_sessions_raises api (ms_tokens_arg env) (browser_arg env) \<longrightarrow>
       get_trending_profiles env api count = (True, [])
     \<and> raised (run_scraper_and_poster env api discord) = None
     \<and> reported (run_scraper_and_poster env api discord) = None
     \<and> set (calls (run_scraper_and_poster env api discord)) \<subseteq> {ScrapeCalled 50})
   \<and> (\<not> create_sessions_raises api (ms_tokens_arg env) (browser_arg env)
       \<and> trending_videos api count = pre @ FeedRaises # post \<longrightarrow>
       snd (get_trending_profiles env api count) = map snd (snd (scrape_loop count pre [])))"
proof (intro conjI impI)
  assume r: "create_sessions_raises api (ms_tokens_arg env) (browser_arg env)"
  then show g: "get_trending_profiles env api count = (True, [])"
    by (simp add: get_trending_profiles_def)
  from r have e: "snd (get_trending_profiles env api 50) = []"
    by (simp add: get_trending_profiles_def)
  show "raised (run_scraper_and_poster env api discord) = None"
    by (simp add: run_scraper_and_poster_def run_with_def e filter_loop_empty split: option.splits)
  show "reported (run_scraper_and_poster env api discord) = None"
    by (simp add: run_scraper_and_poster_def run_with_def e filter_loop_empty split: option.splits)
  show "set (calls (run_scraper_and_poster env api discord)) \<subseteq> {ScrapeCalled 50}"
    by (simp add: run_scraper_and_poster_def run_with_def e filter_loop_empty split: option.splits)
next
  assume "\<not> create_sessions_raises api (ms_tokens_arg env) (browser_arg env)
       \<and> trending_videos api count = pre @ FeedRaises # post"
  then show "snd (get_trending_profiles env api count) = map snd (snd (scrape_loop count pre []))"
    by (simp add: snd_get_trending_profiles scrape_loop_raises)
qed

theorem scrape_exception_caught_witness:
  "get_trending_profiles Map.empty
      \<lparr>create_sessions_raises = (\<lambda>t b. True), trending_videos = (\<lambda>n. [])\<rparr> 50 = (True, [])
   \<and> snd (get_trending_profiles Map.empty
      \<lparr>create_sessions_raises = (\<lambda>t b. False),
       trending_videos = (\<lambda>n. [Video [''id'' \<mapsto> PStr ''1'']] @ FeedRaises # [])\<rparr> 50) =
     map snd (snd (scrape_loop 50 [Video [''id'' \<mapsto> PStr ''1'']] []))"
proof -
  have h1: "create_sessions_raises
      \<lparr>create_sessions_raises = (\<lambda>t b. True), trending_videos = (\<lambda>n. [])\<rparr>
      (ms_tokens_arg Map.empty) (browser_arg Map.empty)" by simp
  have h2: "\<not> create_sessions_raises
      \<lparr>create_sessions_raises = (\<lambda>t b. False),
       trending_videos = (\<lambda>n. [Video [''id'' \<mapsto> PStr ''1'']] @ FeedRaises # [])\<rparr>
      (ms_tokens_arg Map.empty) (browser_arg Map.empty)
    \<and> trending_videos
      \<lparr>create_sessions_raises = (\<lambda>t b. False),
       trending_videos = (\<lambda>n. [Video [''id'' \<mapsto> PStr ''1'']] @ FeedRaises # [])\<rparr> 50 =
      [Video [''id'' \<mapsto> PStr ''1'']] @ FeedRaises # []" by simp
  from scrape_exception_caught
    [where api = "\<lparr>create_sessions_raises = (\<lambda>t b. True), trending_videos = (\<lambda>n. [])\<rparr>"
       and env = Map.empty and count = 50] h1
  have a: "get_trending_profiles Map.empty
      \<lparr>create_sessions_raises = (\<lambda>t b. True), trending_videos = (\<lambda>n. [])\<rparr> 50 = (True, [])"
    by blast
  from scrape_exception_caught
    [where api = "\<lparr>create_sessions_raises = (\<lambda>t b. False),
       trending_videos = (\<lambda>n. [Video [''id'' \<mapsto> PStr ''1'']] @ FeedRaises # [])\<rparr>"
       and env = Map.empty and count = 50 and pre = "[Video [''id'' \<mapsto> PStr ''1'']]"
       and post = "[]"] h2
  have b: "snd (get_trending_profiles Map.empty
      \<lparr>create_sessions_raises = (\<lambda>t b. False),
       trending_videos = (\<lambda>n. [Video [''id'' \<mapsto> PStr ''1'']] @ FeedRaises # [])\<rparr> 50) =
     map snd (snd (scrape_loop 50 [Video [''id'' \<mapsto> PStr ''1'']] []))"
    by blast
  from a b show ?thesis by (intro conjI)
qed

text \<open>
  C6 as stated fails when the feed raises after a profile has been collected: the handler
  is around the loop, the dictionary keeps what it holds, and that is returned.
\<close>

theorem scrape_exception_partial_counterexample:
  "get_trending_profiles Map.empty
      \<lparr>create_sessions_raises = (\<lambda>t b. False),
       trending_videos = (\<lambda>n. [Video [''id'' \<mapsto> PStr ''1'', ''uniqueId'' \<mapsto> PStr ''alice''],
                               FeedRaises])\<rparr> 50 =
     (True, [profile_of_author [''id'' \<mapsto> PStr ''1'', ''uniqueId'' \<mapsto> PStr ''alice'']])
   \<and> snd (get_trending_profiles Map.empty
      \<lparr>create_sessions_raises = (\<lambda>t b. False),
       trending_videos = (\<lambda>n. [Video [''id'' \<mapsto> PStr ''1'', ''uniqueId'' \<mapsto> PStr ''alice''],
                               FeedRaises])\<rparr> 50) \<noteq> []"
  by (simp add: get_trending_profiles_def profile_of_author_def profile_id_of_def py_or_def
      dict_get_def)

section \<open>Properties of \<open>post_profile_to_discord\<close>\<close>

text \<open>
  C5 (the code at two failing inputs): with a token that logs in, the call returns
  \<open>True\<close> although nothing was sent, both when the channel is not found and when
  creating the thread is forbidden. The handler reports the failure on the console only;
  \<open>bot.start\<close> then returns normally and \<open>return True\<close> follows.
\<close>

theorem post_returns_true_without_sending:
  "post_profile_to_discord [''DISCORD_BOT_TOKEN'' \<mapsto> ''t'']
      \<lparr>bot_start = (\<lambda>token. ReadyFired), get_channel = (\<lambda>cid. False),
       create_thread = (\<lambda>cid name. None), thread_send = (\<lambda>cid name e. None)\<rparr>
      [''id'' \<mapsto> PStr ''12345'', ''username'' \<mapsto> PStr ''test_creator_manus'',
       ''nickname'' \<mapsto> PStr ''Manus Test Account'', ''bio'' \<mapsto> PStr ''bio'',
       ''follower_count'' \<mapsto> PInt 1234567, ''heart_count'' \<mapsto> PInt 98765432,
       ''video_count'' \<mapsto> PInt 450,
       ''profile_url'' \<mapsto> PStr ''https://www.tiktok.com/@test_creator_manus'',
       ''avatar_url'' \<mapsto> PStr ''https://example.com/avatar.png'']
      (PStr ''42'') = (True, [])
   \<and> post_profile_to_discord [''DISCORD_BOT_TOKEN'' \<mapsto> ''t'']
      \<lparr>bot_start = (\<lambda>token. ReadyFired), get_channel = (\<lambda>cid. True),
       create_thread = (\<lambda>cid name. Some Forbidden), thread_send = (\<lambda>cid name e. None)\<rparr>
      [''id'' \<mapsto> PStr ''12345'', ''username'' \<mapsto> PStr ''test_creator_manus'',
       ''nickname'' \<mapsto> PStr ''Manus Test Account'', ''bio'' \<mapsto> PStr ''bio'',
       ''follower_count'' \<mapsto> PInt 1234567, ''heart_count'' \<mapsto> PInt 98765432,
       ''video_count'' \<mapsto> PInt 450,
       ''profile_url'' \<mapsto> PStr ''https://www.tiktok.com/@test_creator_manus'',
       ''avatar_url'' \<mapsto> PStr ''https://example.com/avatar.png'']
      (PStr ''42'') = (True, [])"
  by (simp add: post_profile_to_discord_def on_ready_def int_eval create_profile_embed_def
      then_do_def dict_item_def)

section \<open>Properties of \<open>run_scraper_and_poster\<close>\<close>

text \<open>
  C2: when the bot token or the channel id is absent from the environment, the run
  calls neither the scraper nor the publisher and returns normally, whatever the
  collaborators are.
\<close>

theorem missing_config_no_calls:
  assumes "env ''DISCORD_BOT_TOKEN'' = None \<or> env ''DISCORD_CHANNEL_ID'' = None"
  shows "run_with scrape publish env w =
           \<lparr>raised = None, reported = None, calls = [], final_world = w\<rparr>
       \<and> raised (run_scraper_and_poster env tiktok discord) = None
       \<and> calls (run_scraper_and_poster env tiktok discord) = []"
  using assms by (auto simp: run_scraper_and_poster_def run_with_def split: option.splits)

theorem missing_config_no_calls_witness:
  "([''DISCORD_BOT_TOKEN'' \<mapsto> ''t''] ''DISCORD_BOT_TOKEN'' = None
      \<or> [''DISCORD_BOT_TOKEN'' \<mapsto> ''t''] ''DISCORD_CHANNEL_ID'' = None)
   \<and> calls (run_with (\<lambda>w n. (Inr [[''username'' \<mapsto> PStr ''a'']], w)) (\<lambda>w p c. (Inr True, w))
        [''DISCORD_BOT_TOKEN'' \<mapsto> ''t''] ()) = []
   \<and> raised (run_with (\<lambda>w n. (Inr [[''username'' \<mapsto> PStr ''a'']], w)) (\<lambda>w p c. (Inr True, w))
        [''DISCORD_BOT_TOKEN'' \<mapsto> ''t''] ()) = None"
proof -
  have h: "[''DISCORD_BOT_TOKEN'' \<mapsto> ''t''] ''DISCORD_BOT_TOKEN'' = None
      \<or> [''DISCORD_BOT_TOKEN'' \<mapsto> ''t''] ''DISCORD_CHANNEL_ID'' = None" by simp
  from missing_config_no_calls [OF h, of "\<lambda>w n. (Inr [[''username'' \<mapsto> PStr ''a'']], w)"
      "\<lambda>w p c. (Inr True, w)" "()"]
  have r: "run_with (\<lambda>w n. (Inr [[''username'' \<mapsto> PStr ''a'']], w)) (\<lambda>w p c. (Inr True, w))
        [''DISCORD_BOT_TOKEN'' \<mapsto> ''t''] () =
      \<lparr>raised = None, reported = None, calls = [], final_world = ()\<rparr>"
    by (rule conjunct1)
  have c: "calls (run_with (\<lambda>w n. (Inr [[''username'' \<mapsto> PStr ''a'']], w)) (\<lambda>w p c. (Inr True, w))
        [''DISCORD_BOT_TOKEN'' \<mapsto> ''t''] ()) = []"
    unfolding r by simp
  have e: "raised (run_with (\<lambda>w n. (Inr [[''username'' \<mapsto> PStr ''a'']], w)) (\<lambda>w p c. (Inr True, w))
        [''DISCORD_BOT_TOKEN'' \<mapsto> ''t''] ()) = None"
    unfolding r by simp
  from h c e show ?thesis by (intro conjI)
qed

lemma publish_loop_never_raising:
  assumes "\<forall>w p c. \<exists>b. fst (publish w p c) = Inr b"
    and "\<forall>p \<in> set ps. \<exists>k. username_key p = Inr k"
    and "finite (posted_profiles st)"
  shows "\<exists>new. fst (publish_loop publish cid ps st) = None
      \<and> events (snd (publish_loop publish cid ps st)) = events st @ new
      \<and> finite (posted_profiles (snd (publish_loop publish cid ps st)))
      \<and> posted_profiles st \<subseteq> posted_profiles (snd (publish_loop publish cid ps st))
      \<and> card (posted_profiles (snd (publish_loop publish cid ps st))) =
          card (posted_profiles st) + length (filter is_success new)
      \<and> (\<forall>p \<in> set ps. (\<exists>res. PublishCalled p cid res \<in> set new)
            \<or> (\<exists>k. username_key p = Inr k
                  \<and> k \<in> posted_profiles (snd (publish_loop publish cid ps st))))"
  using assms(2,3)
proof (induction ps arbitrary: st)
  case Nil
  then show ?case by simp
next
  case (Cons p ps)
  from Cons.prems(1) obtain k where k: "username_key p = Inr k" by auto
  from Cons.prems(1) have rest: "\<forall>q \<in> set ps. \<exists>k. username_key q = Inr k" by simp
  show ?case
  proof (cases "k \<in> posted_profiles st")
    case True
    then have step: "publish_loop publish cid (p # ps) st = publish_loop publish cid ps st"
      using k by simp
    from Cons.IH [OF rest Cons.prems(2)] obtain new where new:
      "fst (publish_loop publish cid ps st) = None"
      "events (snd (publish_loop publish cid ps st)) = events st @ new"
      "finite (posted_profiles (snd (publish_loop publish cid ps st)))"
      "posted_profiles st \<subseteq> posted_profiles (snd (publish_loop publish cid ps st))"
      "card (posted_profiles (snd (publish_loop publish cid ps st))) =
          card (posted_profiles st) + length (filter is_success new)"
      "\<forall>q \<in> set ps. (\<exists>res. PublishCalled q cid res \<in> set new)
            \<or> (\<exists>k. username_key q = Inr k
                  \<and> k \<in> posted_profiles (snd (publish_loop publish cid ps st)))"
      by blast
    from True new(4) k have "\<exists>k. username_key p = Inr k
        \<and> k \<in> posted_profiles (snd (publish_loop publish cid ps st))" by blast
    with new show ?thesis unfolding step by (intro exI [of _ new]) simp
  next
    case False
    from assms(1) obtain b where "fst (publish (world st) p cid) = Inr b" by blast
    then obtain w where pub: "publish (world st) p cid = (Inr b, w)"
      by (cases "publish (world st) p cid") simp
    define st1 where "st1 = st\<lparr>posted_profiles :=
                          (if b then insert k (posted_profiles st) else posted_profiles st),
                        events := events st @ [PublishCalled p cid (Inr b), Slept 5],
                        world := w\<rparr>"
    have step: "publish_loop publish cid (p # ps) st = publish_loop publish cid ps st1"
      using k False pub by (simp add: st1_def)
    have fin1: "finite (posted_profiles st1)"
      using Cons.prems(2) by (simp add: st1_def)
    have card1: "card (posted_profiles st1) = card (posted_profiles st) + (if b then 1 else 0)"
      using Cons.prems(2) False by (simp add: st1_def)
    have sub1: "posted_profiles st \<subseteq> posted_profiles st1"
      by (auto simp: st1_def)
    have ev1: "events st1 = events st @ [PublishCalled p cid (Inr b), Slept 5]"
      by (simp add: st1_def)
    from Cons.IH [OF rest fin1] obtain new where new:
      "fst (publish_loop publish cid ps st1) = None"
      "events (snd (publish_loop publish cid ps st1)) = events st1 @ new"
      "finite (posted_profiles (snd (publish_loop publish cid ps st1)))"
      "posted_profiles st1 \<subseteq> posted_profiles (snd (publish_loop publish cid ps st1))"
      "card (posted_profiles (snd (publish_loop publish cid ps st1))) =
          card (posted_profiles st1) + length (filter is_success new)"
      "\<forall>q \<in> set ps. (\<exists>res. PublishCalled q cid res \<in> set new)
            \<or> (\<exists>k. username_key q = Inr k
                  \<and> k \<in> posted_profiles (snd (publish_loop publish cid ps st1)))"
      by blast
    let ?new = "[PublishCalled p cid (Inr b), Slept 5] @ new"
    have "fst (publish_loop publish cid (p # ps) st) = None"
      unfolding step by (rule new(1))
    moreover have "events (snd (publish_loop publish cid (p # ps) st)) = events st @ ?new"
      unfolding step using new(2) ev1 by simp
    moreover have "finite (posted_profiles (snd (publish_loop publish cid (p # ps) st)))"
      unfolding step by (rule new(3))
    moreover have "posted_profiles st \<subseteq> posted_profiles (snd (publish_loop publish cid (p # ps) st))"
      unfolding step using sub1 new(4) by blast
    moreover have "card (posted_profiles (snd (publish_loop publish cid (p # ps) st))) =
          card (posted_profiles st) + length (filter is_success ?new)"
      unfolding step using new(5) card1 by simp
    moreover have "\<forall>q \<in> set (p # ps). (\<exists>res. PublishCalled q cid res \<in> set ?new)
            \<or> (\<exists>k. username_key q = Inr k
                  \<and> k \<in> posted_profiles (snd (publish_loop publish cid (p # ps) st)))"
      unfolding step using new(6) by auto
    ultimately show ?thesis by blast
  qed
qed

text \<open>
  C3 (as amended): with a publisher that returns (true or false) and records that have a
  hashable username, the loop runs to its end; every profile is handed to the publisher
  unless its username is in the success set; and the count reported, the size of the
  success set, is the number of publish calls that returned true.
\<close>

theorem publish_failure_continues:
  assumes "\<forall>w p c. \<exists>b. fst (publish w p c) = Inr b"
    and "\<forall>p \<in> set profiles. \<exists>k. username_key p = Inr k"
  shows "fst (publish_loop publish cid profiles \<lparr>posted_profiles = {}, events = [], world = w\<rparr>) = None
    \<and> card (posted_profiles (snd (publish_loop publish cid profiles
               \<lparr>posted_profiles = {}, events = [], world = w\<rparr>))) =
        length (filter is_success (events (snd (publish_loop publish cid profiles
               \<lparr>posted_profiles = {}, events = [], world = w\<rparr>))))
    \<and> (\<forall>p \<in> set profiles.
          (\<exists>res. PublishCalled p cid res \<in> set (events (snd (publish_loop publish cid profiles
               \<lparr>posted_profiles = {}, events = [], world = w\<rparr>))))
        \<or> (\<exists>k. username_key p = Inr k \<and> k \<in> posted_profiles (snd (publish_loop publish cid profiles
               \<lparr>posted_profiles = {}, events = [], world = w\<rparr>))))"
  using publish_loop_never_raising [OF assms, of "\<lparr>posted_profiles = {}, events = [], world = w\<rparr>" cid]
  by auto

theorem publish_failure_continues_witness:
  "events (snd (publish_loop
       (\<lambda>w p c. (Inr (dict_get p ''username'' \<noteq> PStr ''a''), w)) ''1''
       [[''username'' \<mapsto> PStr ''a''], [''username'' \<mapsto> PStr ''b'']]
       \<lparr>posted_profiles = {}, events = [], world = ()\<rparr>)) =
     [PublishCalled [''username'' \<mapsto> PStr ''a''] ''1'' (Inr False), Slept 5,
      PublishCalled [''username'' \<mapsto> PStr ''b''] ''1'' (Inr True), Slept 5]
   \<and> card (posted_profiles (snd (publish_loop
       (\<lambda>w p c. (Inr (dict_get p ''username'' \<noteq> PStr ''a''), w)) ''1''
       [[''username'' \<mapsto> PStr ''a''], [''username'' \<mapsto> PStr ''b'']]
       \<lparr>posted_profiles = {}, events = [], world = ()\<rparr>))) = 1"
proof -
  let ?pub = "\<lambda>(w::unit) (p::profile) (c::string). (Inr (dict_get p ''username'' \<noteq> PStr ''a'') :: pyexn + bool, w)"
  let ?ps = "[[''username'' \<mapsto> PStr ''a''], [''username'' \<mapsto> PStr ''b'']] :: profile list"
  have h1: "\<forall>w p c. \<exists>b. fst (?pub w p c) = Inr b" by simp
  have h2: "\<forall>p \<in> set ?ps. \<exists>k. username_key p = Inr k"
    by (simp add: username_key_def dict_item_def then_do_def)
  have ev: "events (snd (publish_loop ?pub ''1'' ?ps \<lparr>posted_profiles = {}, events = [], world = ()\<rparr>)) =
     [PublishCalled [''username'' \<mapsto> PStr ''a''] ''1'' (Inr False), Slept 5,
      PublishCalled [''username'' \<mapsto> PStr ''b''] ''1'' (Inr True), Slept 5]"
    by (simp add: username_key_def dict_item_def then_do_def dict_get_def)
  from publish_failure_continues [OF h1 h2, of "''1''" "()"] ev show ?thesis by simp
qed

text \<open>
  C3 as stated fails for a publisher that raises: nothing in the loop catches the
  exception. Here the publisher raises on the first of two profiles; the run ends with
  that exception and the second profile is never attempted.
\<close>

theorem publish_raise_aborts_counterexample:
  "raised (run_with
      (\<lambda>w n. (Inr [[''username'' \<mapsto> PStr ''a'', ''follower_count'' \<mapsto> PInt 5],
                     [''username'' \<mapsto> PStr ''b'', ''follower_count'' \<mapsto> PInt 7]], w))
      (\<lambda>w p c. (if dict_get p ''username'' = PStr ''a'' then Inl OtherException else Inr True, w))
      [''DISCORD_BOT_TOKEN'' \<mapsto> ''t'', ''DISCORD_CHANNEL_ID'' \<mapsto> ''1'', ''MIN_FOLLOWERS'' \<mapsto> ''0'']
      ()) = Some OtherException
   \<and> calls (run_with
      (\<lambda>w n. (Inr [[''username'' \<mapsto> PStr ''a'', ''follower_count'' \<mapsto> PInt 5],
                     [''username'' \<mapsto> PStr ''b'', ''follower_count'' \<mapsto> PInt 7]], w))
      (\<lambda>w p c. (if dict_get p ''username'' = PStr ''a'' then Inl OtherException else Inr True, w))
      [''DISCORD_BOT_TOKEN'' \<mapsto> ''t'', ''DISCORD_CHANNEL_ID'' \<mapsto> ''1'', ''MIN_FOLLOWERS'' \<mapsto> ''0'']
      ()) =
     [ScrapeCalled 50,
      PublishCalled [''username'' \<mapsto> PStr ''a'', ''follower_count'' \<mapsto> PInt 5] ''1''
        (Inl OtherException)]"
  by (simp add: run_with_def snd_filter_profiles spec_threshold_def int_eval
      follower_count_of_def username_key_def dict_item_def then_do_def dict_get_def)




lemma success_keys_append: "success_keys (es @ fs) = success_keys es \<union> success_keys fs"
  by (induction es rule: success_keys.induct) (auto split: sum.splits)








end
